theory Spec2Isabelle
  imports Main
begin

section \<open>Python values held by the analyzer\<close>

text \<open>
  \<^verbatim>\<open>Controller/Driver.py\<close> computes with four kinds of Python value: instances of the
  marker classes \<^verbatim>\<open>NumType\<close>, \<^verbatim>\<open>StringType\<close>, \<^verbatim>\<open>BooleanType\<close>, \<^verbatim>\<open>NilType\<close>
  (module \<^verbatim>\<open>Model.data_types\<close>), the string \<^verbatim>\<open>"Unknown"\<close> (and what \<^verbatim>\<open>+\<close> makes
  of it), \<^verbatim>\<open>None\<close>, and the booleans that Python's comparisons return.

  Booleans arise only in \<^verbatim>\<open>visitComparison\<close> and above; \<^verbatim>\<open>visitPrimary\<close> never
  descends into a parenthesised expression, so no boolean reaches an arithmetic
  operator. The two layers of values are therefore two types: \<open>pyval\<close> for what
  the arithmetic layers hold and \<open>pyobj\<close> for what the layers above them hold.
\<close>

datatype data_type = NumType | StringType | BooleanType | NilType

datatype pyval = PyNone | PyStr string | PyInstance data_type

datatype pyobj = Value pyval | PyBool bool

text \<open>
  What the walk can raise: the \<^verbatim>\<open>Exception\<close> of \<^verbatim>\<open>visitVarDecl\<close> with its message,
  Python's \<^verbatim>\<open>TypeError\<close> of an operator applied to operands that do not support
  it, and any other exception raised inside an operator method of a marker class.
  \<open>UndefinedReferenceError\<close> is the error kind of the specified \<^verbatim>\<open>resolve\<close>.
\<close>

datatype error =
    Exception string
  | TypeError
  | ClassError string
  | UndefinedReferenceError string

text \<open>
  The marker classes themselves are not part of \<^verbatim>\<open>Driver.py\<close>. Whatever an operator
  does when one of its operands is a marker instance is decided by the methods of those
  classes (\<^verbatim>\<open>__bool__\<close>, \<^verbatim>\<open>__add__\<close>, \<^verbatim>\<open>__lt__\<close>, \<^verbatim>\<open>__eq__\<close>, ...), so it is a
  parameter of the model: every function below takes an \<open>externals\<close> record and
  every theorem holds for each of its values.
  \<^item> \<open>truth d\<close>: the truth value of an instance of class \<open>d\<close>;
  \<^item> \<open>arith op l r\<close>: \<^verbatim>\<open>l op r\<close> for \<^verbatim>\<open>+ - * / %\<close> when \<open>l\<close> or \<open>r\<close> is a marker
    instance;
  \<^item> \<open>compare op l r\<close>: \<^verbatim>\<open>l op r\<close> for \<^verbatim>\<open>== != < > <= >=\<close> when \<open>l\<close> or \<open>r\<close> is a
    marker instance;
  \<^item> \<open>format s r\<close>: Python's printf-style \<^verbatim>\<open>s % r\<close> for a format string \<open>s\<close> that
    contains a \<^verbatim>\<open>%\<close> character (never the case for \<^verbatim>\<open>"Unknown"\<close>).
\<close>

record externals =
  truth :: "data_type \<Rightarrow> bool"
  arith :: "string \<Rightarrow> pyval \<Rightarrow> pyval \<Rightarrow> error + pyval"
  compare :: "string \<Rightarrow> pyobj \<Rightarrow> pyobj \<Rightarrow> error + pyobj"
  format :: "string \<Rightarrow> pyval \<Rightarrow> error + pyval"

fun is_instance :: "pyval \<Rightarrow> bool" where
  "is_instance (PyInstance d) = True"
| "is_instance PyNone = False"
| "is_instance (PyStr s) = False"

fun is_marker :: "pyobj \<Rightarrow> bool" where
  "is_marker (Value v) = is_instance v"
| "is_marker (PyBool b) = False"

subsection \<open>Truth value, \<^verbatim>\<open>or\<close>, \<^verbatim>\<open>and\<close>\<close>

text \<open>\<^verbatim>\<open>bool(x)\<close>: \<^verbatim>\<open>None\<close> and the empty string are false, other strings are true.\<close>

fun py_truth :: "externals \<Rightarrow> pyobj \<Rightarrow> bool" where
  "py_truth env (PyBool b) = b"
| "py_truth env (Value PyNone) = False"
| "py_truth env (Value (PyStr s)) = (s \<noteq> [])"
| "py_truth env (Value (PyInstance d)) = truth env d"

text \<open>\<^verbatim>\<open>a or b\<close> is \<open>a\<close> when \<open>a\<close> is true and \<open>b\<close> otherwise; \<^verbatim>\<open>a and b\<close> is the dual.\<close>

definition py_or :: "externals \<Rightarrow> pyobj \<Rightarrow> pyobj \<Rightarrow> pyobj" where
  "py_or env a b = (if py_truth env a then a else b)"

definition py_and :: "externals \<Rightarrow> pyobj \<Rightarrow> pyobj \<Rightarrow> pyobj" where
  "py_and env a b = (if py_truth env a then b else a)"

subsection \<open>Equality and ordering\<close>

text \<open>
  Between \<^verbatim>\<open>None\<close>, booleans and strings \<^verbatim>\<open>==\<close> never raises: values of different
  kinds are unequal, values of one kind are compared by content.
\<close>

definition py_eq :: "externals \<Rightarrow> pyobj \<Rightarrow> pyobj \<Rightarrow> error + pyobj" where
  "py_eq env a b =
     (if is_marker a \<or> is_marker b then compare env ''=='' a b
      else Inr (PyBool (a = b)))"

definition py_ne :: "externals \<Rightarrow> pyobj \<Rightarrow> pyobj \<Rightarrow> error + pyobj" where
  "py_ne env a b =
     (if is_marker a \<or> is_marker b then compare env ''!='' a b
      else Inr (PyBool (a \<noteq> b)))"

text \<open>Strings are ordered lexicographically by character code.\<close>

fun str_lt :: "string \<Rightarrow> string \<Rightarrow> bool" where
  "str_lt [] [] = False"
| "str_lt [] (y # ys) = True"
| "str_lt (x # xs) [] = False"
| "str_lt (x # xs) (y # ys) =
     (if (of_char x :: nat) < of_char y then True
      else if (of_char y :: nat) < of_char x then False
      else str_lt xs ys)"

text \<open>
  \<^verbatim>\<open>a < b\<close> on two strings or on two booleans (\<^verbatim>\<open>False < True\<close>); every other pair
  without a marker instance raises \<^verbatim>\<open>TypeError\<close>, \<^verbatim>\<open>None < None\<close> included.
\<close>

fun builtin_lt :: "pyobj \<Rightarrow> pyobj \<Rightarrow> error + bool" where
  "builtin_lt (Value (PyStr s)) (Value (PyStr t)) = Inr (str_lt s t)"
| "builtin_lt (PyBool x) (PyBool y) = Inr (x < y)"
| "builtin_lt a b = Inl TypeError"

definition py_lt :: "externals \<Rightarrow> pyobj \<Rightarrow> pyobj \<Rightarrow> error + pyobj" where
  "py_lt env a b =
     (if is_marker a \<or> is_marker b then compare env ''<'' a b
      else map_sum id PyBool (builtin_lt a b))"

definition py_gt :: "externals \<Rightarrow> pyobj \<Rightarrow> pyobj \<Rightarrow> error + pyobj" where
  "py_gt env a b =
     (if is_marker a \<or> is_marker b then compare env ''>'' a b
      else map_sum id PyBool (builtin_lt b a))"

definition py_le :: "externals \<Rightarrow> pyobj \<Rightarrow> pyobj \<Rightarrow> error + pyobj" where
  "py_le env a b =
     (if is_marker a \<or> is_marker b then compare env ''<='' a b
      else map_sum id (\<lambda>r. PyBool (\<not> r)) (builtin_lt b a))"

definition py_ge :: "externals \<Rightarrow> pyobj \<Rightarrow> pyobj \<Rightarrow> error + pyobj" where
  "py_ge env a b =
     (if is_marker a \<or> is_marker b then compare env ''>='' a b
      else map_sum id (\<lambda>r. PyBool (\<not> r)) (builtin_lt a b))"

subsection \<open>Arithmetic operators\<close>

text \<open>
  Without a marker instance the operands are \<^verbatim>\<open>None\<close> or strings. \<^verbatim>\<open>+\<close> concatenates
  two strings; \<^verbatim>\<open>-\<close>, \<^verbatim>\<open>*\<close> and \<^verbatim>\<open>/\<close> raise \<^verbatim>\<open>TypeError\<close> on every such pair; \<^verbatim>\<open>%\<close>
  with a string on the left is string formatting, which raises \<^verbatim>\<open>TypeError\<close> (not all
  arguments converted) when the string has no \<^verbatim>\<open>%\<close> in it.
\<close>

definition py_add :: "externals \<Rightarrow> pyval \<Rightarrow> pyval \<Rightarrow> error + pyval" where
  "py_add env l r =
     (if is_instance l \<or> is_instance r then arith env ''+'' l r
      else case (l, r) of
             (PyStr s, PyStr t) \<Rightarrow> Inr (PyStr (s @ t))
           | _ \<Rightarrow> Inl TypeError)"

definition py_sub :: "externals \<Rightarrow> pyval \<Rightarrow> pyval \<Rightarrow> error + pyval" where
  "py_sub env l r =
     (if is_instance l \<or> is_instance r then arith env ''-'' l r else Inl TypeError)"

definition py_mul :: "externals \<Rightarrow> pyval \<Rightarrow> pyval \<Rightarrow> error + pyval" where
  "py_mul env l r =
     (if is_instance l \<or> is_instance r then arith env ''*'' l r else Inl TypeError)"

definition py_truediv :: "externals \<Rightarrow> pyval \<Rightarrow> pyval \<Rightarrow> error + pyval" where
  "py_truediv env l r =
     (if is_instance l \<or> is_instance r then arith env ''/'' l r else Inl TypeError)"

definition py_mod :: "externals \<Rightarrow> pyval \<Rightarrow> pyval \<Rightarrow> error + pyval" where
  "py_mod env l r =
     (if is_instance l \<or> is_instance r then arith env ''%'' l r
      else case l of
             PyStr s \<Rightarrow> (if CHR ''%'' \<in> set s then format env s r else Inl TypeError)
           | _ \<Rightarrow> Inl TypeError)"

section \<open>The parse tree\<close>

text \<open>
  The tree comes from the ANTLR parser of the language; the analyzer reads it through
  the accessors of the context classes. Each context is modelled by what its accessors
  return. A layer \<^verbatim>\<open>x (op x)*\<close> is its first operand and the list of the following
  (operator text, operand) pairs: \<^verbatim>\<open>ctx.x(i)\<close> is the \<open>i\<close>-th operand and
  \<^verbatim>\<open>ctx.getChild(2 * i - 1).getText()\<close> the operator before it.
\<close>

text \<open>
  \<^verbatim>\<open>PrimaryContext\<close>: the \<^verbatim>\<open>NUMBER\<close> and \<^verbatim>\<open>STRING\<close> tokens when present, and the text
  of the node (for an identifier its name, for a parenthesised expression the text of
  all its tokens). \<^verbatim>\<open>getText()\<close> always returns a string, so the comparison
  \<^verbatim>\<open>ctx.getText() == None\<close> of \<^verbatim>\<open>visitPrimary\<close> is never true.
\<close>

record PrimaryContext =
  NUMBER :: "string option"
  STRING :: "string option"
  getText :: string

text \<open>\<^verbatim>\<open>call: primary (...)* | funAnon\<close>\<close>

datatype CallContext = CallPrimary PrimaryContext | CallFunAnon

fun primary :: "CallContext \<Rightarrow> PrimaryContext option" where
  "primary (CallPrimary p) = Some p"
| "primary CallFunAnon = None"

text \<open>\<^verbatim>\<open>unary: ('!' | '-') unary | call\<close>\<close>

datatype UnaryContext = Prefixed string UnaryContext | UnaryCall CallContext

fun call :: "UnaryContext \<Rightarrow> CallContext option" where
  "call (UnaryCall c) = Some c"
| "call (Prefixed operator u) = None"

datatype FactorContext = Factor UnaryContext "(string \<times> UnaryContext) list"

datatype TermContext = Term FactorContext "(string \<times> FactorContext) list"

datatype ComparisonContext = Comparison TermContext "(string \<times> TermContext) list"

datatype EqualityContext = Equality ComparisonContext "(string \<times> ComparisonContext) list"

datatype Logic_andContext = Logic_and EqualityContext "EqualityContext list"

datatype Logic_orContext = Logic_or Logic_andContext "Logic_andContext list"

text \<open>\<^verbatim>\<open>assignment: (call '.')? IDENTIFIER '=' assignment | logic_or\<close>\<close>

datatype AssignmentContext =
    AssignTo "CallContext option" string AssignmentContext
  | AssignLogic Logic_orContext

fun logic_or :: "AssignmentContext \<Rightarrow> Logic_orContext option" where
  "logic_or (AssignLogic l) = Some l"
| "logic_or (AssignTo target identifier a) = None"

text \<open>\<^verbatim>\<open>expression: assignment | funAnon\<close>\<close>

datatype ExpressionContext = ExprAssignment AssignmentContext | ExprFunAnon

fun assignment :: "ExpressionContext \<Rightarrow> AssignmentContext option" where
  "assignment (ExprAssignment a) = Some a"
| "assignment ExprFunAnon = None"

text \<open>\<^verbatim>\<open>varDecl: 'var' IDENTIFIER ('=' expression)? ';'\<close>\<close>

record VarDeclContext =
  IDENTIFIER :: string
  expression :: "ExpressionContext option"

text \<open>\<^verbatim>\<open>declaration: classDecl | funDecl | varDecl | statement\<close>\<close>

datatype DeclarationContext = DeclVar VarDeclContext | DeclOther

fun varDecl :: "DeclarationContext \<Rightarrow> VarDeclContext option" where
  "varDecl (DeclVar v) = Some v"
| "varDecl DeclOther = None"

section \<open>The expression layers of \<^verbatim>\<open>SemanticAnalyzer\<close>\<close>

definition visitPrimary :: "PrimaryContext \<Rightarrow> pyval" where
  "visitPrimary ctx =
     (if NUMBER ctx \<noteq> None then PyInstance NumType
      else if STRING ctx \<noteq> None then PyInstance StringType
      else if getText ctx = ''true'' \<or> getText ctx = ''false'' then PyInstance BooleanType
      else if getText ctx = ''nil'' then PyInstance NilType
      else PyStr ''Unknown'')"

text \<open>A method that falls off its end returns \<^verbatim>\<open>None\<close>.\<close>

definition visitCall :: "CallContext \<Rightarrow> pyval" where
  "visitCall ctx = (case primary ctx of Some p \<Rightarrow> visitPrimary p | None \<Rightarrow> PyNone)"

definition visitUnary :: "UnaryContext \<Rightarrow> pyval" where
  "visitUnary ctx = (case call ctx of Some c \<Rightarrow> visitCall c | None \<Rightarrow> PyNone)"

text \<open>
  One round of the loop of \<^verbatim>\<open>visitFactor\<close>: the \<^verbatim>\<open>if\<close>/\<^verbatim>\<open>elif\<close> chain on the operator
  text; with any other text \<open>result\<close> stays as it is.
\<close>

definition factor_op :: "externals \<Rightarrow> string \<Rightarrow> pyval \<Rightarrow> pyval \<Rightarrow> error + pyval" where
  "factor_op env operator result unary_result =
     (if operator = ''*'' then py_mul env result unary_result
      else if operator = ''/'' then py_truediv env result unary_result
      else if operator = ''%'' then py_mod env result unary_result
      else Inr result)"

fun factor_loop :: "externals \<Rightarrow> pyval \<Rightarrow> (string \<times> UnaryContext) list \<Rightarrow> error + pyval" where
  "factor_loop env result [] = Inr result"
| "factor_loop env result ((operator, u) # rest) =
     (case factor_op env operator result (visitUnary u) of
        Inl e \<Rightarrow> Inl e
      | Inr result' \<Rightarrow> factor_loop env result' rest)"

fun visitFactor :: "externals \<Rightarrow> FactorContext \<Rightarrow> error + pyval" where
  "visitFactor env (Factor u rest) = factor_loop env (visitUnary u) rest"

definition term_op :: "externals \<Rightarrow> string \<Rightarrow> pyval \<Rightarrow> pyval \<Rightarrow> error + pyval" where
  "term_op env operator result factor_result =
     (if operator = ''+'' then py_add env result factor_result
      else if operator = ''-'' then py_sub env result factor_result
      else Inr result)"

fun term_loop :: "externals \<Rightarrow> pyval \<Rightarrow> (string \<times> FactorContext) list \<Rightarrow> error + pyval" where
  "term_loop env result [] = Inr result"
| "term_loop env result ((operator, f) # rest) =
     (case visitFactor env f of
        Inl e \<Rightarrow> Inl e
      | Inr factor_result \<Rightarrow>
          (case term_op env operator result factor_result of
             Inl e \<Rightarrow> Inl e
           | Inr result' \<Rightarrow> term_loop env result' rest))"

fun visitTerm :: "externals \<Rightarrow> TermContext \<Rightarrow> error + pyval" where
  "visitTerm env (Term f rest) =
     (case visitFactor env f of
        Inl e \<Rightarrow> Inl e
      | Inr result \<Rightarrow> term_loop env result rest)"

definition comparison_op :: "externals \<Rightarrow> string \<Rightarrow> pyobj \<Rightarrow> pyobj \<Rightarrow> error + pyobj" where
  "comparison_op env operator result term_result =
     (if operator = ''<'' then py_lt env result term_result
      else if operator = ''>'' then py_gt env result term_result
      else if operator = ''<='' then py_le env result term_result
      else if operator = ''>='' then py_ge env result term_result
      else Inr result)"

text \<open>The loop of \<^verbatim>\<open>visitComparison\<close> leaves (\<^verbatim>\<open>break\<close>) as soon as \<open>result\<close> is false.\<close>

fun comparison_loop :: "externals \<Rightarrow> pyobj \<Rightarrow> (string \<times> TermContext) list \<Rightarrow> error + pyobj" where
  "comparison_loop env result [] = Inr result"
| "comparison_loop env result ((operator, t) # rest) =
     (case visitTerm env t of
        Inl e \<Rightarrow> Inl e
      | Inr term_result \<Rightarrow>
          (case comparison_op env operator result (Value term_result) of
             Inl e \<Rightarrow> Inl e
           | Inr result' \<Rightarrow>
               if \<not> py_truth env result' then Inr result'
               else comparison_loop env result' rest))"

fun visitComparison :: "externals \<Rightarrow> ComparisonContext \<Rightarrow> error + pyobj" where
  "visitComparison env (Comparison t rest) =
     (case visitTerm env t of
        Inl e \<Rightarrow> Inl e
      | Inr result \<Rightarrow> comparison_loop env (Value result) rest)"

definition equality_op :: "externals \<Rightarrow> string \<Rightarrow> pyobj \<Rightarrow> pyobj \<Rightarrow> error + pyobj" where
  "equality_op env operator result comparison_result =
     (if operator = ''=='' then py_eq env result comparison_result
      else if operator = ''!='' then py_ne env result comparison_result
      else Inr result)"

fun equality_loop :: "externals \<Rightarrow> pyobj \<Rightarrow> (string \<times> ComparisonContext) list \<Rightarrow> error + pyobj" where
  "equality_loop env result [] = Inr result"
| "equality_loop env result ((operator, c) # rest) =
     (case visitComparison env c of
        Inl e \<Rightarrow> Inl e
      | Inr comparison_result \<Rightarrow>
          (case equality_op env operator result comparison_result of
             Inl e \<Rightarrow> Inl e
           | Inr result' \<Rightarrow>
               if \<not> py_truth env result' then Inr result'
               else equality_loop env result' rest))"

fun visitEquality :: "externals \<Rightarrow> EqualityContext \<Rightarrow> error + pyobj" where
  "visitEquality env (Equality c rest) =
     (case visitComparison env c of
        Inl e \<Rightarrow> Inl e
      | Inr result \<Rightarrow> equality_loop env result rest)"

text \<open>
  \<^verbatim>\<open>visitLogic_and\<close>: \<^verbatim>\<open>result = result and equality_result\<close>, then \<^verbatim>\<open>break\<close> when
  \<open>result\<close> is false.
\<close>

fun and_loop :: "externals \<Rightarrow> pyobj \<Rightarrow> EqualityContext list \<Rightarrow> error + pyobj" where
  "and_loop env result [] = Inr result"
| "and_loop env result (c # rest) =
     (case visitEquality env c of
        Inl e \<Rightarrow> Inl e
      | Inr equality_result \<Rightarrow>
          (let result' = py_and env result equality_result
           in if \<not> py_truth env result' then Inr result'
              else and_loop env result' rest))"

fun visitLogic_and :: "externals \<Rightarrow> Logic_andContext \<Rightarrow> error + pyobj" where
  "visitLogic_and env (Logic_and c rest) =
     (case visitEquality env c of
        Inl e \<Rightarrow> Inl e
      | Inr result \<Rightarrow> and_loop env result rest)"

text \<open>
  \<^verbatim>\<open>visitLogic_or\<close>: \<^verbatim>\<open>result = result or logic_and_result\<close>, then \<^verbatim>\<open>break\<close> when
  \<open>result\<close> is true.
\<close>

fun or_loop :: "externals \<Rightarrow> pyobj \<Rightarrow> Logic_andContext list \<Rightarrow> error + pyobj" where
  "or_loop env result [] = Inr result"
| "or_loop env result (c # rest) =
     (case visitLogic_and env c of
        Inl e \<Rightarrow> Inl e
      | Inr logic_and_result \<Rightarrow>
          (let result' = py_or env result logic_and_result
           in if py_truth env result' then Inr result'
              else or_loop env result' rest))"

fun visitLogic_or :: "externals \<Rightarrow> Logic_orContext \<Rightarrow> error + pyobj" where
  "visitLogic_or env (Logic_or c rest) =
     (case visitLogic_and env c of
        Inl e \<Rightarrow> Inl e
      | Inr result \<Rightarrow> or_loop env result rest)"

definition visitAssignment :: "externals \<Rightarrow> AssignmentContext \<Rightarrow> error + pyobj" where
  "visitAssignment env ctx =
     (case logic_or ctx of
        Some l \<Rightarrow> visitLogic_or env l
      | None \<Rightarrow> Inr (Value PyNone))"

definition visitExpression :: "externals \<Rightarrow> ExpressionContext \<Rightarrow> error + pyobj" where
  "visitExpression env ctx =
     (case assignment ctx of
        Some a \<Rightarrow> visitAssignment env a
      | None \<Rightarrow> Inr (Value PyNone))"

section \<open>Symbols and scopes\<close>

text \<open>
  Modelled from the spec: the classes \<^verbatim>\<open>Variable\<close> (\<^verbatim>\<open>Model.object_types\<close>) and
  \<^verbatim>\<open>Symbol\<close> (\<^verbatim>\<open>Model.symbol_table\<close>) are not part of \<^verbatim>\<open>Driver.py\<close>; the fields are
  those the analyzer passes to their constructors. A Symbol is a name, its type (held
  by the \<^verbatim>\<open>Variable\<close> object) and the id of the scope that declares it.
\<close>

record Variable =
  data_type :: pyobj

record Symbol =
  name :: string
  obj_type :: Variable
  scope_level :: nat

text \<open>
  Modelled from the spec: a Scope is an id and its own bindings, a mapping from names to
  Symbols; its parent is the next scope of the manager's stack.
\<close>

record Scope =
  scope_id :: nat
  bindings :: "string \<rightharpoonup> Symbol"

text \<open>
  Modelled from the spec: the class \<^verbatim>\<open>ScopeManager\<close> (\<^verbatim>\<open>Model.scope\<close>) is not part of
  \<^verbatim>\<open>Driver.py\<close>. It owns the stack of active scopes, from the current (innermost) scope
  outward to the global scope; the stack is never empty, so the current scope is a field
  of its own and \<open>enclosing\<close> lists its ancestors, nearest first.
\<close>

record ScopeManager =
  current :: Scope
  enclosing :: "Scope list"
  next_id :: nat

text \<open>
  Modelled from the spec: the constructor \<^verbatim>\<open>ScopeManager()\<close> creates the global scope,
  which has no bindings yet.
\<close>

definition new_ScopeManager :: ScopeManager where
  "new_ScopeManager =
     \<lparr>current = \<lparr>scope_id = 0, bindings = Map.empty\<rparr>, enclosing = [], next_id = 1\<rparr>"

text \<open>
  Modelled from the spec: the attribute \<^verbatim>\<open>current_scope\<close>, which the analyzer stores in a
  new Symbol as its \<^verbatim>\<open>scope_level\<close>, identifies the top of the stack.
\<close>

definition current_scope :: "ScopeManager \<Rightarrow> nat" where
  "current_scope sm = scope_id (current sm)"

text \<open>
  Modelled from the spec: \<^verbatim>\<open>get_symbol(identifier, Variable)\<close> is the duplicate check of
  \<^verbatim>\<open>declare\<close>, which looks in the current scope's own bindings and not in the parent
  scopes; it returns the Symbol or \<^verbatim>\<open>None\<close>.
\<close>

definition get_symbol :: "ScopeManager \<Rightarrow> string \<Rightarrow> Symbol option" where
  "get_symbol sm identifier = bindings (current sm) identifier"

text \<open>
  Modelled from the spec: \<^verbatim>\<open>add_symbol(symbol)\<close> is the insertion of \<^verbatim>\<open>declare\<close>: the
  Symbol goes into the bindings of the current scope, no enclosing scope changes.
\<close>

definition add_symbol :: "ScopeManager \<Rightarrow> Symbol \<Rightarrow> ScopeManager" where
  "add_symbol sm symbol =
     sm\<lparr>current := (current sm)\<lparr>bindings := (bindings (current sm))(name symbol \<mapsto> symbol)\<rparr>\<rparr>"

text \<open>
  Modelled from the spec: \<^verbatim>\<open>enterScope()\<close> pushes a new empty scope whose parent is the
  current one; the new scope becomes the current one.
\<close>

definition enterScope :: "ScopeManager \<Rightarrow> ScopeManager" where
  "enterScope sm =
     \<lparr>current = \<lparr>scope_id = next_id sm, bindings = Map.empty\<rparr>,
      enclosing = current sm # enclosing sm,
      next_id = Suc (next_id sm)\<rparr>"

text \<open>
  Modelled from the spec: \<^verbatim>\<open>exitScope()\<close> pops the current scope and fails (\<open>None\<close>) when
  that would pop the global scope.
\<close>

definition exitScope :: "ScopeManager \<Rightarrow> ScopeManager option" where
  "exitScope sm =
     (case enclosing sm of
        [] \<Rightarrow> None
      | parent # outer \<Rightarrow> Some (sm\<lparr>current := parent, enclosing := outer\<rparr>))"

text \<open>
  Modelled from the spec: \<^verbatim>\<open>resolve(name)\<close> searches the current scope, then each parent
  outward, and returns the first match; it fails with \<open>UndefinedReferenceError\<close> when
  no scope of the chain binds the name.
\<close>

fun resolve_in :: "Scope list \<Rightarrow> string \<Rightarrow> error + Symbol" where
  "resolve_in [] identifier = Inl (UndefinedReferenceError identifier)"
| "resolve_in (s # outer) identifier =
     (case bindings s identifier of
        Some symbol \<Rightarrow> Inr symbol
      | None \<Rightarrow> resolve_in outer identifier)"

text \<open>
  Modelled from the spec: \<^verbatim>\<open>resolve(name)\<close> starts the search at the current scope.
\<close>

definition resolve :: "ScopeManager \<Rightarrow> string \<Rightarrow> error + Symbol" where
  "resolve sm identifier = resolve_in (current sm # enclosing sm) identifier"

section \<open>Declarations\<close>

text \<open>
  The assignment \<^verbatim>\<open>variable.data_type = expression_type\<close> of \<^verbatim>\<open>visitVarDecl\<close> writes to
  the \<^verbatim>\<open>Variable\<close> object that the Symbol just added to the current scope refers to:
  the Symbol bound to \<open>identifier\<close> there is the one that changes.
\<close>

definition assign_data_type :: "ScopeManager \<Rightarrow> string \<Rightarrow> pyobj \<Rightarrow> ScopeManager" where
  "assign_data_type sm identifier expression_type =
     (case get_symbol sm identifier of
        None \<Rightarrow> sm
      | Some symbol \<Rightarrow>
          add_symbol sm (symbol\<lparr>obj_type := (obj_type symbol)\<lparr>data_type := expression_type\<rparr>\<rparr>))"

definition already_exists :: "string \<Rightarrow> error" where
  "already_exists identifier =
     Exception (''Variable '' @ [CHR 0x27] @ identifier @ [CHR 0x27] @
                '' already exists in the current scope.'')"

text \<open>
  A visitor method that changes the scope manager returns the manager as it is when the
  method returns or raises, next to what it returns (\<open>Inr\<close>) or raises (\<open>Inl\<close>).
\<close>

definition visitVarDecl ::
  "externals \<Rightarrow> VarDeclContext \<Rightarrow> ScopeManager \<Rightarrow> (error + unit) \<times> ScopeManager" where
  "visitVarDecl env ctx sm =
     (let identifier = IDENTIFIER ctx in
      case get_symbol sm identifier of
        Some existing_var \<Rightarrow> (Inl (already_exists identifier), sm)
      | None \<Rightarrow>
          (let variable = \<lparr>data_type = Value PyNone\<rparr>;
               new_var_symbol =
                 \<lparr>name = identifier, obj_type = variable, scope_level = current_scope sm\<rparr>;
               sm1 = add_symbol sm new_var_symbol
           in case expression ctx of
                Some e \<Rightarrow>
                  (case visitExpression env e of
                     Inl err \<Rightarrow> (Inl err, sm1)
                   | Inr expression_type \<Rightarrow>
                       (Inr (), assign_data_type sm1 identifier expression_type))
              | None \<Rightarrow> (Inr (), sm1)))"

definition visitDeclaration ::
  "externals \<Rightarrow> DeclarationContext \<Rightarrow> ScopeManager \<Rightarrow> (error + unit) \<times> ScopeManager" where
  "visitDeclaration env ctx sm =
     (case varDecl ctx of
        Some v \<Rightarrow> visitVarDecl env v sm
      | None \<Rightarrow> (Inr (), sm))"

text \<open>
  \<^verbatim>\<open>visitProgram\<close> visits the children of the program node, its declarations, in order;
  an exception ends the walk.
\<close>

fun visitProgram ::
  "externals \<Rightarrow> DeclarationContext list \<Rightarrow> ScopeManager \<Rightarrow> (error + unit) \<times> ScopeManager" where
  "visitProgram env [] sm = (Inr (), sm)"
| "visitProgram env (d # rest) sm =
     (case visitDeclaration env d sm of
        (Inl err, sm') \<Rightarrow> (Inl err, sm')
      | (Inr u, sm') \<Rightarrow> visitProgram env rest sm')"

text \<open>One analysis run: a fresh \<^verbatim>\<open>SemanticAnalyzer()\<close> visits the program.\<close>

definition analyze ::
  "externals \<Rightarrow> DeclarationContext list \<Rightarrow> (error + unit) \<times> ScopeManager" where
  "analyze env program = visitProgram env program new_ScopeManager"

section \<open>Trees of the covered programs\<close>

text \<open>
  The primaries of the grammar as the accessors show them: a number literal carries its
  \<^verbatim>\<open>NUMBER\<close> token, a string literal its \<^verbatim>\<open>STRING\<close> token, and a keyword
  (\<^verbatim>\<open>true\<close>, \<^verbatim>\<open>false\<close>, \<^verbatim>\<open>nil\<close>, \<^verbatim>\<open>this\<close>) or an identifier only its text.
\<close>

definition number_primary :: "string \<Rightarrow> PrimaryContext" where
  "number_primary text = \<lparr>NUMBER = Some text, STRING = None, getText = text\<rparr>"

definition string_primary :: "string \<Rightarrow> PrimaryContext" where
  "string_primary text = \<lparr>NUMBER = None, STRING = Some text, getText = text\<rparr>"

definition word_primary :: "string \<Rightarrow> PrimaryContext" where
  "word_primary text = \<lparr>NUMBER = None, STRING = None, getText = text\<rparr>"

text \<open>An identifier is a word that is not a keyword of the three literal spellings.\<close>

definition is_identifier :: "string \<Rightarrow> bool" where
  "is_identifier text = (text \<noteq> ''true'' \<and> text \<noteq> ''false'' \<and> text \<noteq> ''nil'')"

datatype literal = NumberLit string | StringLit string | TrueLit | FalseLit | NilLit

fun literal_primary :: "literal \<Rightarrow> PrimaryContext" where
  "literal_primary (NumberLit text) = number_primary text"
| "literal_primary (StringLit text) = string_primary text"
| "literal_primary TrueLit = word_primary ''true''"
| "literal_primary FalseLit = word_primary ''false''"
| "literal_primary NilLit = word_primary ''nil''"

fun literal_type :: "literal \<Rightarrow> data_type" where
  "literal_type (NumberLit text) = NumType"
| "literal_type (StringLit text) = StringType"
| "literal_type TrueLit = BooleanType"
| "literal_type FalseLit = BooleanType"
| "literal_type NilLit = NilType"

text \<open>
  An operand standing alone at every layer above it: the tree of an expression that is
  just one unary expression, as the parser builds it.
\<close>

definition primary_unary :: "PrimaryContext \<Rightarrow> UnaryContext" where
  "primary_unary p = UnaryCall (CallPrimary p)"

definition unary_term :: "UnaryContext \<Rightarrow> TermContext" where
  "unary_term u = Term (Factor u []) []"

definition unary_equality :: "UnaryContext \<Rightarrow> EqualityContext" where
  "unary_equality u = Equality (Comparison (unary_term u) []) []"

definition unary_logic_and :: "UnaryContext \<Rightarrow> Logic_andContext" where
  "unary_logic_and u = Logic_and (unary_equality u) []"

definition unary_expression :: "UnaryContext \<Rightarrow> ExpressionContext" where
  "unary_expression u = ExprAssignment (AssignLogic (Logic_or (unary_logic_and u) []))"

definition literal_unary :: "literal \<Rightarrow> UnaryContext" where
  "literal_unary l = primary_unary (literal_primary l)"

definition identifier_unary :: "string \<Rightarrow> UnaryContext" where
  "identifier_unary word = primary_unary (word_primary word)"

text \<open>An expression that is just one additive node, and \<^verbatim>\<open>l op r\<close> as an additive node.\<close>

definition term_expression :: "TermContext \<Rightarrow> ExpressionContext" where
  "term_expression t =
     ExprAssignment (AssignLogic (Logic_or (Logic_and (Equality (Comparison t []) []) []) []))"


definition var_decl :: "string \<Rightarrow> ExpressionContext option \<Rightarrow> DeclarationContext" where
  "var_decl identifier e = DeclVar \<lparr>IDENTIFIER = identifier, expression = e\<rparr>"

text \<open>
  The Symbol that \<^verbatim>\<open>visitVarDecl\<close> builds for \<open>identifier\<close> in the manager \<open>sm\<close>, with
  \<open>t\<close> as the \<^verbatim>\<open>data_type\<close> of its \<^verbatim>\<open>Variable\<close>.
\<close>

definition declared :: "string \<Rightarrow> pyobj \<Rightarrow> ScopeManager \<Rightarrow> Symbol" where
  "declared identifier t sm =
     \<lparr>name = identifier, obj_type = \<lparr>data_type = t\<rparr>, scope_level = current_scope sm\<rparr>"



section \<open>Two values of the parameter\<close>

text \<open>
  Marker classes that define no special method, so that Python's defaults for objects
  apply: every instance is true, two instances are unequal (each call of
  \<^verbatim>\<open>visitPrimary\<close> creates a new object, so two operands are never the same object),
  and ordering and arithmetic raise \<^verbatim>\<open>TypeError\<close>. The trees evaluated with it hold no
  format string; \<open>format\<close> is set to raise.
\<close>

definition plain_classes :: externals where
  "plain_classes =
     \<lparr>truth = (\<lambda>d. True),
      arith = (\<lambda>operator l r. Inl TypeError),
      compare = (\<lambda>operator a b.
        if operator = ''=='' then Inr (PyBool False)
        else if operator = ''!='' then Inr (PyBool True)
        else Inl TypeError),
      format = (\<lambda>s r. Inl TypeError)\<rparr>"


text \<open>
  A manager with a nested scope: \<^verbatim>\<open>var x = 1;\<close> analysed in the global scope, then a
  new scope entered.
\<close>

definition shadowing_state :: ScopeManager where
  "shadowing_state =
     enterScope (snd (analyze plain_classes
       [var_decl ''x'' (Some (unary_expression (literal_unary (NumberLit ''1''))))]))"

section \<open>What \<^verbatim>\<open>or\<close> and \<^verbatim>\<open>and\<close> select\<close>

text \<open>
  The first true value of a non-empty list of values, or its last value when none is
  true; dually the first false value, or the last.
\<close>

fun first_true :: "externals \<Rightarrow> pyobj \<Rightarrow> pyobj list \<Rightarrow> pyobj" where
  "first_true env v [] = v"
| "first_true env v (w # ws) = (if py_truth env v then v else first_true env w ws)"

fun first_false :: "externals \<Rightarrow> pyobj \<Rightarrow> pyobj list \<Rightarrow> pyobj" where
  "first_false env v [] = v"
| "first_false env v (w # ws) = (if py_truth env v then first_false env w ws else v)"

section \<open>The type system of the specification\<close>

text \<open>
  The specification's closed variant of static types, and its rules for the result type
  of an operator, written from the specification's words. They are what the analyzer's
  results are compared with; the analyzer itself has no such table.
\<close>

datatype Type = NumT | StringT | BooleanT | NilT | UnknownT | ErrorT

fun marker_type :: "data_type \<Rightarrow> Type" where
  "marker_type NumType = NumT"
| "marker_type StringType = StringT"
| "marker_type BooleanType = BooleanT"
| "marker_type NilType = NilT"

text \<open>
  The static type that a value of the analyzer stands for: a marker instance stands for
  its type; \<^verbatim>\<open>None\<close> (the type of a variable that is not determined yet) and the string
  \<^verbatim>\<open>"Unknown"\<close> (a primary without a typing rule) both stand for the specification's
  Unknown; a boolean or another string stands for no type. No value stands for Error.
\<close>

fun spec_type :: "pyobj \<Rightarrow> Type option" where
  "spec_type (Value (PyInstance d)) = Some (marker_type d)"
| "spec_type (Value PyNone) = Some UnknownT"
| "spec_type (Value (PyStr s)) = (if s = ''Unknown'' then Some UnknownT else None)"
| "spec_type (PyBool b) = None"

text \<open>
  Boolean connectives: both operands Boolean give Boolean; Unknown propagates Unknown;
  a concretely non-Boolean operand gives Error; Error is absorbing.
\<close>

definition spec_connective_type :: "Type \<Rightarrow> Type \<Rightarrow> Type" where
  "spec_connective_type l r =
     (if l = ErrorT \<or> r = ErrorT then ErrorT
      else if l = BooleanT \<and> r = BooleanT then BooleanT
      else if (l = BooleanT \<or> l = UnknownT) \<and> (r = BooleanT \<or> r = UnknownT) then UnknownT
      else ErrorT)"



section \<open>An operand that stands alone\<close>

text \<open>
  With one operand a layer's loop body never runs (\<^verbatim>\<open>range(1, 1)\<close> is empty): the
  operand's value passes through unchanged.
\<close>

lemma visitUnary_Prefixed [simp]: "visitUnary (Prefixed operator u) = PyNone"
  by (simp add: visitUnary_def)

lemma visitUnary_primary [simp]: "visitUnary (primary_unary p) = visitPrimary p"
  by (simp add: visitUnary_def visitCall_def primary_unary_def)

lemma visitTerm_unary [simp]: "visitTerm env (unary_term u) = Inr (visitUnary u)"
  by (simp add: unary_term_def)

lemma visitEquality_unary [simp]:
  "visitEquality env (unary_equality u) = Inr (Value (visitUnary u))"
  by (simp add: unary_equality_def)

lemma visitLogic_and_unary [simp]:
  "visitLogic_and env (unary_logic_and u) = Inr (Value (visitUnary u))"
  by (simp add: unary_logic_and_def)

lemma visitExpression_unary [simp]:
  "visitExpression env (unary_expression u) = Inr (Value (visitUnary u))"
  by (simp add: unary_expression_def visitExpression_def visitAssignment_def)

lemma visitExpression_FunAnon [simp]: "visitExpression env ExprFunAnon = Inr (Value PyNone)"
  by (simp add: visitExpression_def)

lemma visitAssignment_AssignTo [simp]:
  "visitAssignment env (AssignTo target identifier a) = Inr (Value PyNone)"
  by (simp add: visitAssignment_def)

lemma visitExpression_term [simp]:
  "visitExpression env (term_expression t) = map_sum id Value (visitTerm env t)"
  by (cases "visitTerm env t")
     (simp_all add: term_expression_def visitExpression_def visitAssignment_def)

lemma visitPrimary_literal [simp]:
  "visitPrimary (literal_primary l) = PyInstance (literal_type l)"
  by (cases l)
     (simp_all add: visitPrimary_def number_primary_def string_primary_def word_primary_def)

lemma visitPrimary_identifier [simp]:
  "is_identifier word \<Longrightarrow> visitPrimary (word_primary word) = PyStr ''Unknown''"
  by (simp add: visitPrimary_def word_primary_def is_identifier_def)

lemma visitUnary_literal [simp]: "visitUnary (literal_unary l) = PyInstance (literal_type l)"
  by (simp add: literal_unary_def)

lemma visitUnary_identifier [simp]:
  "is_identifier word \<Longrightarrow> visitUnary (identifier_unary word) = PyStr ''Unknown''"
  by (simp add: identifier_unary_def)

section \<open>The scope manager under a declaration\<close>

lemma get_symbol_add_symbol [simp]:
  "get_symbol (add_symbol sm symbol) identifier =
     (if identifier = name symbol then Some symbol else get_symbol sm identifier)"
  by (simp add: get_symbol_def add_symbol_def)

lemma enclosing_add_symbol [simp]: "enclosing (add_symbol sm symbol) = enclosing sm"
  by (simp add: add_symbol_def)

lemma current_scope_add_symbol [simp]:
  "current_scope (add_symbol sm symbol) = current_scope sm"
  by (simp add: add_symbol_def current_scope_def)

lemma name_declared [simp]: "name (declared x t sm) = x"
  by (simp add: declared_def)

text \<open>Assigning the type of the Symbol just added gives the Symbol with that type.\<close>

lemma assign_after_add:
  "assign_data_type (add_symbol sm (declared x t sm)) x v = add_symbol sm (declared x v sm)"
  by (simp add: assign_data_type_def declared_def add_symbol_def get_symbol_def)

lemma resolve_current:
  "get_symbol sm identifier = Some symbol \<Longrightarrow> resolve sm identifier = Inr symbol"
  by (simp add: resolve_def get_symbol_def)

text \<open>The two ways through \<^verbatim>\<open>visitVarDecl\<close>: the name is bound already, or it is new.\<close>

lemma visitVarDecl_exists:
  "get_symbol sm (IDENTIFIER d) = Some symbol \<Longrightarrow>
   visitVarDecl env d sm = (Inl (already_exists (IDENTIFIER d)), sm)"
  by (simp add: visitVarDecl_def)

lemma visitVarDecl_fresh:
  "get_symbol sm (IDENTIFIER d) = None \<Longrightarrow>
   visitVarDecl env d sm =
     (case expression d of
        None \<Rightarrow> (Inr (), add_symbol sm (declared (IDENTIFIER d) (Value PyNone) sm))
      | Some e \<Rightarrow>
          (case visitExpression env e of
             Inl err \<Rightarrow> (Inl err, add_symbol sm (declared (IDENTIFIER d) (Value PyNone) sm))
           | Inr v \<Rightarrow> (Inr (), add_symbol sm (declared (IDENTIFIER d) v sm))))"
  by (simp add: visitVarDecl_def Let_def assign_after_add [unfolded declared_def] declared_def
           split: option.splits sum.splits)

lemma bound_after_visitVarDecl:
  "get_symbol (snd (visitVarDecl env d sm)) (IDENTIFIER d) \<noteq> None"
proof (cases "get_symbol sm (IDENTIFIER d)")
  case None
  then show ?thesis
    by (simp add: visitVarDecl_fresh split: option.splits sum.splits)
next
  case (Some symbol)
  then show ?thesis
    by (simp add: visitVarDecl_exists)
qed

text \<open>A Symbol of the current scope is the same after any declaration is visited.\<close>

lemma visitVarDecl_keeps:
  assumes "get_symbol sm x = Some symbol"
  shows "get_symbol (snd (visitVarDecl env d sm)) x = Some symbol"
proof (cases "get_symbol sm (IDENTIFIER d)")
  case None
  with assms have "x \<noteq> IDENTIFIER d" by auto
  with None assms show ?thesis
    by (simp add: visitVarDecl_fresh split: option.splits sum.splits)
next
  case (Some s)
  with assms show ?thesis
    by (simp add: visitVarDecl_exists)
qed

lemma visitDeclaration_keeps:
  "get_symbol sm x = Some symbol \<Longrightarrow>
   get_symbol (snd (visitDeclaration env d sm)) x = Some symbol"
  by (simp add: visitDeclaration_def visitVarDecl_keeps split: option.splits)

lemma visitProgram_keeps:
  "get_symbol sm x = Some symbol \<Longrightarrow>
   get_symbol (snd (visitProgram env ds sm)) x = Some symbol"
proof (induction ds arbitrary: sm)
  case Nil
  then show ?case by simp
next
  case (Cons d ds)
  obtain r sm' where step: "visitDeclaration env d sm = (r, sm')"
    by (cases "visitDeclaration env d sm")
  with Cons.prems have kept: "get_symbol sm' x = Some symbol"
    using visitDeclaration_keeps [of sm x symbol env d] by simp
  show ?case
  proof (cases r)
    case (Inl err)
    with step kept show ?thesis by simp
  next
    case (Inr u)
    with step Cons.IH [OF kept] show ?thesis by simp
  qed
qed


section \<open>The loops\<close>

lemma or_loop_values:
  "map (visitLogic_and env) rest = map Inr vs \<Longrightarrow>
   or_loop env v rest = Inr (first_true env v vs)"
proof (induction rest arbitrary: v vs)
  case Nil
  then show ?case by simp
next
  case (Cons c rest)
  then obtain w ws where vs: "vs = w # ws" and c: "visitLogic_and env c = Inr w"
    and rest: "map (visitLogic_and env) rest = map Inr ws"
    by (cases vs) auto
  show ?case
  proof (cases "py_truth env v")
    case True
    with c vs show ?thesis by (simp add: py_or_def)
  next
    case False
    with c vs Cons.IH [OF rest, of w] show ?thesis
      by (cases ws; cases rest) (auto simp add: py_or_def Let_def)
  qed
qed

lemma and_loop_values:
  "map (visitEquality env) rest = map Inr vs \<Longrightarrow>
   and_loop env v rest = Inr (first_false env v vs)"
proof (induction rest arbitrary: v vs)
  case Nil
  then show ?case by simp
next
  case (Cons c rest)
  then obtain w ws where vs: "vs = w # ws" and c: "visitEquality env c = Inr w"
    and rest: "map (visitEquality env) rest = map Inr ws"
    by (cases vs) auto
  show ?case
  proof (cases "py_truth env v")
    case False
    with c vs show ?thesis by (simp add: py_and_def)
  next
    case True
    with c vs Cons.IH [OF rest, of w] show ?thesis
      by (cases ws; cases rest) (auto simp add: py_and_def Let_def)
  qed
qed











text \<open>The definitions that evaluating the analyzer on a concrete program unfolds.\<close>

lemmas eval_defs = plain_classes_def new_ScopeManager_def get_symbol_def add_symbol_def
  declared_def current_scope_def resolve_def visitDeclaration_def var_decl_def
  is_identifier_def analyze_def enterScope_def visitVarDecl_def assign_data_type_def Let_def

section \<open>The logical layers\<close>

text \<open>
  C1, as the code has it. \<^verbatim>\<open>visitLogic_or\<close> folds its operand values with Python's
  \<^verbatim>\<open>or\<close> and leaves the loop when the result is true; \<^verbatim>\<open>visitLogic_and\<close> folds with
  \<^verbatim>\<open>and\<close> and leaves when the result is false. When the operands evaluate to the values
  \<open>v, vs\<close> without raising, a logical-or expression therefore has the first of these values
  that is true (the last one when none is), and a logical-and expression the first that is
  false (the last one when none is). The result is one of the operand values, chosen by their
  truth values; no typing rule is applied and no Error type arises.
\<close>

theorem logic_layers_short_circuit:
  "(visitLogic_and env c = Inr v \<and> map (visitLogic_and env) rest = map Inr vs \<longrightarrow>
      visitLogic_or env (Logic_or c rest) = Inr (first_true env v vs))
   \<and> (visitEquality env c' = Inr v' \<and> map (visitEquality env) rest' = map Inr vs' \<longrightarrow>
      visitLogic_and env (Logic_and c' rest') = Inr (first_false env v' vs'))"
  by (simp add: or_loop_values and_loop_values)

text \<open>
  \<^verbatim>\<open>false or "x"\<close> is the Boolean marker (the left operand is a true object) and
  \<^verbatim>\<open>true and 1\<close> is the Num marker, with marker classes that define no special method.
\<close>

theorem logic_layers_short_circuit_witness:
  "visitLogic_or plain_classes
     (Logic_or (unary_logic_and (literal_unary FalseLit))
               [unary_logic_and (literal_unary (StringLit ''x''))])
   = Inr (Value (PyInstance BooleanType))
   \<and> visitLogic_and plain_classes
       (Logic_and (unary_equality (literal_unary TrueLit))
                  [unary_equality (literal_unary (NumberLit ''1''))])
     = Inr (Value (PyInstance NumType))"
  using logic_layers_short_circuit
    [where env = plain_classes
       and c = "unary_logic_and (literal_unary FalseLit)"
       and v = "Value (PyInstance BooleanType)"
       and rest = "[unary_logic_and (literal_unary (StringLit ''x''))]"
       and vs = "[Value (PyInstance StringType)]"
       and c' = "unary_equality (literal_unary TrueLit)"
       and v' = "Value (PyInstance BooleanType)"
       and rest' = "[unary_equality (literal_unary (NumberLit ''1''))]"
       and vs' = "[Value (PyInstance NumType)]"]
  by (simp add: plain_classes_def)

text \<open>
  C1 as stated fails on \<^verbatim>\<open>true or 1\<close>. The operand types are Boolean and Num, for which
  the type rule gives Error. The analyzer returns the Boolean marker when a
  \<^verbatim>\<open>BooleanType\<close> instance is true and the Num marker when it is false: the result
  depends on the truth value of the left operand and is never Error, whatever the marker
  classes do.
\<close>

theorem true_or_number_counterexample:
  "\<forall>env. visitLogic_or env
           (Logic_or (unary_logic_and (literal_unary TrueLit))
                     [unary_logic_and (literal_unary (NumberLit ''1''))])
         = Inr (Value (PyInstance (if truth env BooleanType then BooleanType else NumType)))
       \<and> map_sum id spec_type (visitLogic_or env
           (Logic_or (unary_logic_and (literal_unary TrueLit))
                     [unary_logic_and (literal_unary (NumberLit ''1''))]))
         \<noteq> Inr (Some (foldl spec_connective_type (marker_type (literal_type TrueLit))
                          [marker_type (literal_type (NumberLit ''1''))]))"
  by (simp add: py_or_def spec_connective_type_def Let_def)

section \<open>Primaries\<close>

text \<open>
  C2, as the code has it. \<^verbatim>\<open>visitPrimary\<close> has no branch for identifiers and never
  consults the scope manager: for every identifier, bound or not, it returns the string
  \<^verbatim>\<open>"Unknown"\<close> and never fails. That string is the value of an expression that is just
  the identifier, and the type stored for \<^verbatim>\<open>var y = x;\<close> in any manager where \<open>y\<close> is new,
  whatever the scopes bind \<open>x\<close> to.
\<close>

theorem identifier_is_Unknown_string:
  assumes "is_identifier word"
  shows "visitPrimary (word_primary word) = PyStr ''Unknown''
       \<and> visitExpression env (unary_expression (identifier_unary word))
         = Inr (Value (PyStr ''Unknown''))
       \<and> (get_symbol sm y = None \<longrightarrow>
            visitVarDecl env
              \<lparr>IDENTIFIER = y, expression = Some (unary_expression (identifier_unary word))\<rparr> sm
            = (Inr (), add_symbol sm (declared y (Value (PyStr ''Unknown'')) sm)))"
  using assms by (simp add: visitVarDecl_fresh)

theorem identifier_is_Unknown_string_witness:
  "is_identifier ''x''
   \<and> visitExpression plain_classes (unary_expression (identifier_unary ''x''))
     = Inr (Value (PyStr ''Unknown''))
   \<and> get_symbol new_ScopeManager ''y'' = None
   \<and> resolve (snd (visitVarDecl plain_classes
        \<lparr>IDENTIFIER = ''y'', expression = Some (unary_expression (identifier_unary ''x''))\<rparr>
        new_ScopeManager)) ''y''
     = Inr (declared ''y'' (Value (PyStr ''Unknown'')) new_ScopeManager)"
  using identifier_is_Unknown_string
    [where word = "''x''" and env = plain_classes and sm = new_ScopeManager and y = "''y''"]
  by (simp add: eval_defs)

text \<open>
  C2 as stated fails twice. After \<^verbatim>\<open>var x = 1;\<close> resolving \<open>x\<close> gives a Symbol of type
  Num, yet the primary \<open>x\<close> has the value \<^verbatim>\<open>"Unknown"\<close>; and for \<open>y\<close>, which no scope
  binds, resolution fails with \<open>UndefinedReferenceError\<close>, yet the primary \<open>y\<close> evaluates,
  to the same string. The string is not the value \<^verbatim>\<open>None\<close> that an undetermined type has
  elsewhere.
\<close>

theorem identifier_counterexample:
  "\<forall>env. map_sum id (\<lambda>symbol. data_type (obj_type symbol))
           (resolve (snd (analyze env
              [var_decl ''x'' (Some (unary_expression (literal_unary (NumberLit ''1''))))]))
              ''x'')
         = Inr (Value (PyInstance NumType))
       \<and> visitPrimary (word_primary ''x'') = PyStr ''Unknown''
       \<and> resolve new_ScopeManager ''y'' = Inl (UndefinedReferenceError ''y'')
       \<and> visitPrimary (word_primary ''y'') = PyStr ''Unknown''"
  by (simp add: analyze_def var_decl_def visitDeclaration_def visitVarDecl_fresh
        is_identifier_def get_symbol_def new_ScopeManager_def resolve_def
        add_symbol_def declared_def)

section \<open>Errors inside an expression\<close>




section \<open>The relational layer\<close>




section \<open>The additive and multiplicative layers\<close>




section \<open>Declarations of variables\<close>

text \<open>
  C6. Once a declaration of a name has been visited in a scope (whether its initializer
  evaluated or raised), visiting a second declaration of the same name in that scope,
  directly or after any further declarations, raises the one exception
  \<^verbatim>\<open>Variable '...' already exists in the current scope.\<close> before anything is changed: the
  scope manager is returned as it was, and the name is still bound to the Symbol of the
  first declaration, type included.
\<close>

theorem redeclaration_raises:
  assumes "IDENTIFIER d2 = IDENTIFIER d1"
  shows "visitVarDecl env d2 (snd (visitProgram env between (snd (visitVarDecl env d1 sm))))
           = (Inl (already_exists (IDENTIFIER d1)),
              snd (visitProgram env between (snd (visitVarDecl env d1 sm))))
         \<and> get_symbol (snd (visitProgram env between (snd (visitVarDecl env d1 sm))))
               (IDENTIFIER d1)
           = get_symbol (snd (visitVarDecl env d1 sm)) (IDENTIFIER d1)
         \<and> get_symbol (snd (visitVarDecl env d1 sm)) (IDENTIFIER d1) \<noteq> None"
proof -
  let ?sm1 = "snd (visitVarDecl env d1 sm)"
  obtain symbol where bound: "get_symbol ?sm1 (IDENTIFIER d1) = Some symbol"
    using bound_after_visitVarDecl [of env d1 sm] by auto
  then have kept:
    "get_symbol (snd (visitProgram env between ?sm1)) (IDENTIFIER d1) = Some symbol"
    by (rule visitProgram_keeps)
  with assms bound show ?thesis
    by (simp add: visitVarDecl_exists)
qed

text \<open>\<^verbatim>\<open>var x = 1; var y; var x = "a";\<close>: the third declaration raises and \<open>x\<close> stays Num.\<close>

theorem redeclaration_raises_witness:
  "IDENTIFIER \<lparr>IDENTIFIER = ''x'',
               expression = Some (unary_expression (literal_unary (StringLit ''a'')))\<rparr>
     = IDENTIFIER \<lparr>IDENTIFIER = ''x'',
                   expression = Some (unary_expression (literal_unary (NumberLit ''1'')))\<rparr>
   \<and> fst (visitVarDecl plain_classes
       \<lparr>IDENTIFIER = ''x'', expression = Some (unary_expression (literal_unary (StringLit ''a'')))\<rparr>
       (snd (visitProgram plain_classes [var_decl ''y'' None]
          (snd (visitVarDecl plain_classes
             \<lparr>IDENTIFIER = ''x'',
              expression = Some (unary_expression (literal_unary (NumberLit ''1'')))\<rparr>
             new_ScopeManager)))))
     = Inl (already_exists ''x'')
   \<and> get_symbol (snd (visitVarDecl plain_classes
       \<lparr>IDENTIFIER = ''x'', expression = Some (unary_expression (literal_unary (StringLit ''a'')))\<rparr>
       (snd (visitProgram plain_classes [var_decl ''y'' None]
          (snd (visitVarDecl plain_classes
             \<lparr>IDENTIFIER = ''x'',
              expression = Some (unary_expression (literal_unary (NumberLit ''1'')))\<rparr>
             new_ScopeManager)))))) ''x''
     = Some (declared ''x'' (Value (PyInstance NumType)) new_ScopeManager)"
  using redeclaration_raises
    [where env = plain_classes and sm = new_ScopeManager
       and between = "[var_decl ''y'' None]"
       and ?d1.0 = "\<lparr>IDENTIFIER = ''x'',
                     expression = Some (unary_expression (literal_unary (NumberLit ''1'')))\<rparr>"
       and ?d2.0 = "\<lparr>IDENTIFIER = ''x'',
                     expression = Some (unary_expression (literal_unary (StringLit ''a'')))\<rparr>"]
  by (simp add: eval_defs)

text \<open>
  C7. A declaration whose name is not bound in the current scope's own bindings succeeds,
  whatever the enclosing scopes \<open>outer\<close> bind, the same name included: the duplicate check
  gives the same answer for every list of enclosing scopes, the declaration returns without
  an exception when its initializer (if any) evaluates, the enclosing scopes are left as
  they were, and the name now resolves to a Symbol declared in the current scope.
\<close>

theorem shadowing_is_legal:
  assumes "bindings (current sm) (IDENTIFIER d) = None"
    and "expression d = None \<or> (\<exists>e v. expression d = Some e \<and> visitExpression env e = Inr v)"
  shows "get_symbol (sm\<lparr>enclosing := outer\<rparr>) (IDENTIFIER d) = None
       \<and> fst (visitVarDecl env d (sm\<lparr>enclosing := outer\<rparr>)) = Inr ()
       \<and> enclosing (snd (visitVarDecl env d (sm\<lparr>enclosing := outer\<rparr>))) = outer
       \<and> (\<exists>symbol. resolve (snd (visitVarDecl env d (sm\<lparr>enclosing := outer\<rparr>))) (IDENTIFIER d)
                       = Inr symbol
                   \<and> name symbol = IDENTIFIER d \<and> scope_level symbol = current_scope sm)"
proof -
  let ?sm = "sm\<lparr>enclosing := outer\<rparr>"
  have fresh: "get_symbol ?sm (IDENTIFIER d) = None"
    using assms(1) by (simp add: get_symbol_def)
  have cs: "current_scope ?sm = current_scope sm"
    by (simp add: current_scope_def)
  from assms(2) show ?thesis
  proof
    assume "expression d = None"
    with fresh cs show ?thesis
      by (simp add: visitVarDecl_fresh resolve_current declared_def)
  next
    assume "\<exists>e v. expression d = Some e \<and> visitExpression env e = Inr v"
    then obtain e v where "expression d = Some e" "visitExpression env e = Inr v" by blast
    with fresh cs show ?thesis
      by (simp add: visitVarDecl_fresh resolve_current declared_def)
  qed
qed

text \<open>
  In a scope nested in the global scope, where \<open>x\<close> is a Num, \<^verbatim>\<open>var x = "s";\<close> succeeds:
  \<open>x\<close> then resolves to a String declared in scope 1, and the global \<open>x\<close> is still a Num.
\<close>

theorem shadowing_is_legal_witness:
  "bindings (current shadowing_state) ''x'' = None
   \<and> map_sum id (\<lambda>symbol. (data_type (obj_type symbol), scope_level symbol))
       (resolve shadowing_state ''x'') = Inr (Value (PyInstance NumType), 0)
   \<and> fst (visitVarDecl plain_classes
       \<lparr>IDENTIFIER = ''x'', expression = Some (unary_expression (literal_unary (StringLit ''s'')))\<rparr>
       shadowing_state) = Inr ()
   \<and> map_sum id (\<lambda>symbol. (data_type (obj_type symbol), scope_level symbol))
       (resolve (snd (visitVarDecl plain_classes
          \<lparr>IDENTIFIER = ''x'',
           expression = Some (unary_expression (literal_unary (StringLit ''s'')))\<rparr>
          shadowing_state)) ''x'')
     = Inr (Value (PyInstance StringType), 1)
   \<and> map_sum id (\<lambda>symbol. (data_type (obj_type symbol), scope_level symbol))
       (resolve_in (enclosing (snd (visitVarDecl plain_classes
          \<lparr>IDENTIFIER = ''x'',
           expression = Some (unary_expression (literal_unary (StringLit ''s'')))\<rparr>
          shadowing_state))) ''x'')
     = Inr (Value (PyInstance NumType), 0)"
  using shadowing_is_legal
    [where env = plain_classes and sm = shadowing_state and outer = "enclosing shadowing_state"
       and d = "\<lparr>IDENTIFIER = ''x'',
                 expression = Some (unary_expression (literal_unary (StringLit ''s'')))\<rparr>"]
  by (simp add: shadowing_state_def eval_defs)

text \<open>
  C8. For a declaration of a new name, the Symbol enters the scope with the undetermined
  type (\<^verbatim>\<open>None\<close> in the code, the specification's Unknown):
  \<^item> without an initializer the declaration returns without an exception and the type stays
    undetermined;
  \<^item> when the initializer raises, the type is still undetermined at the raise;
  \<^item> when the initializer evaluates to \<open>v\<close>, the type is assigned once, to \<open>v\<close>;
  \<^item> and whatever declarations are visited later, the name stays bound to the very same
    Symbol: its type is never changed again.
\<close>

theorem type_assigned_once:
  assumes "get_symbol sm (IDENTIFIER d) = None"
  shows "(expression d = None \<longrightarrow>
            visitVarDecl env d sm
              = (Inr (), add_symbol sm (declared (IDENTIFIER d) (Value PyNone) sm)))
       \<and> (\<forall>e err. expression d = Some e \<and> visitExpression env e = Inl err \<longrightarrow>
            visitVarDecl env d sm
              = (Inl err, add_symbol sm (declared (IDENTIFIER d) (Value PyNone) sm)))
       \<and> (\<forall>e v. expression d = Some e \<and> visitExpression env e = Inr v \<longrightarrow>
            visitVarDecl env d sm
              = (Inr (), assign_data_type
                           (add_symbol sm (declared (IDENTIFIER d) (Value PyNone) sm))
                           (IDENTIFIER d) v)
            \<and> get_symbol (snd (visitVarDecl env d sm)) (IDENTIFIER d)
              = Some (declared (IDENTIFIER d) v sm))
       \<and> get_symbol (snd (visitProgram env later (snd (visitVarDecl env d sm)))) (IDENTIFIER d)
         = get_symbol (snd (visitVarDecl env d sm)) (IDENTIFIER d)"
proof -
  obtain symbol where bound:
    "get_symbol (snd (visitVarDecl env d sm)) (IDENTIFIER d) = Some symbol"
    using bound_after_visitVarDecl [of env d sm] by auto
  have terminal:
    "get_symbol (snd (visitProgram env later (snd (visitVarDecl env d sm)))) (IDENTIFIER d)
     = get_symbol (snd (visitVarDecl env d sm)) (IDENTIFIER d)"
    using visitProgram_keeps [OF bound] bound by simp
  from assms terminal show ?thesis
    by (simp add: visitVarDecl_fresh assign_after_add)
qed

text \<open>After \<^verbatim>\<open>var x = 1;\<close>, neither \<^verbatim>\<open>var y = "a";\<close> nor \<^verbatim>\<open>var x = "b";\<close> changes \<open>x\<close>.\<close>

theorem type_assigned_once_witness:
  "get_symbol new_ScopeManager ''x'' = None
   \<and> get_symbol (snd (visitProgram plain_classes
        [var_decl ''y'' (Some (unary_expression (literal_unary (StringLit ''a'')))),
         var_decl ''x'' (Some (unary_expression (literal_unary (StringLit ''b''))))]
        (snd (visitVarDecl plain_classes
           \<lparr>IDENTIFIER = ''x'',
            expression = Some (unary_expression (literal_unary (NumberLit ''1'')))\<rparr>
           new_ScopeManager)))) ''x''
     = Some (declared ''x'' (Value (PyInstance NumType)) new_ScopeManager)"
  using type_assigned_once
    [where env = plain_classes and sm = new_ScopeManager
       and d = "\<lparr>IDENTIFIER = ''x'',
                 expression = Some (unary_expression (literal_unary (NumberLit ''1'')))\<rparr>"
       and later = "[var_decl ''y'' (Some (unary_expression (literal_unary (StringLit ''a'')))),
         var_decl ''x'' (Some (unary_expression (literal_unary (StringLit ''b''))))]"]
  by (simp add: eval_defs)

text \<open>
  C9. For a declaration \<^verbatim>\<open>var x = <literal>\<close> of a new name, where the literal is a
  number, a string, \<^verbatim>\<open>true\<close>, \<^verbatim>\<open>false\<close> or \<^verbatim>\<open>nil\<close>, the declaration returns without an
  exception, and resolving \<open>x\<close> right after it gives the Symbol whose type is the marker of
  the literal's type: Num, String, Boolean or Nil.
\<close>

theorem literal_declaration:
  assumes "get_symbol sm x = None"
  shows "visitVarDecl env
           \<lparr>IDENTIFIER = x, expression = Some (unary_expression (literal_unary l))\<rparr> sm
         = (Inr (), add_symbol sm (declared x (Value (PyInstance (literal_type l))) sm))
       \<and> resolve (snd (visitVarDecl env
           \<lparr>IDENTIFIER = x, expression = Some (unary_expression (literal_unary l))\<rparr> sm)) x
         = Inr (declared x (Value (PyInstance (literal_type l))) sm)"
  using assms by (simp add: visitVarDecl_fresh resolve_current)

theorem literal_declaration_witness:
  "get_symbol new_ScopeManager ''x'' = None
   \<and> resolve (snd (visitVarDecl plain_classes
        \<lparr>IDENTIFIER = ''x'',
         expression = Some (unary_expression (literal_unary (StringLit ''hello'')))\<rparr>
        new_ScopeManager)) ''x''
     = Inr (declared ''x'' (Value (PyInstance StringType)) new_ScopeManager)"
  using literal_declaration
    [where env = plain_classes and sm = new_ScopeManager and x = "''x''"
       and l = "StringLit ''hello''"]
  by (simp add: eval_defs)

section \<open>The unary layer\<close>


end
